theory Spec2Isabelle
  imports Main "HOL-Library.Char_ord" "HOL-Library.List_Lexorder"
begin

section \<open>MathesarColumn (db/columns/base.py)\<close>

text \<open>
  The class \<^verbatim>\<open>MathesarColumn\<close> extends sqlalchemy's \<^verbatim>\<open>Column\<close>. An object is
  modelled by the record of the attributes the source reads and writes. Exceptions are
  values of type \<open>error\<close>; a property that can raise returns \<open>error + 'a\<close>, and a
  property that can return Python's \<^verbatim>\<open>None\<close> returns an \<open>option\<close>.
\<close>

subsection \<open>Data\<close>

datatype error =
  AttributeError            \<comment> \<open>an attribute read on \<^verbatim>\<open>None\<close>\<close>
| NoInspectionAvailable     \<comment> \<open>sqlalchemy's \<^verbatim>\<open>inspect\<close> on something that is no connection\<close>
| ExternalFailure string    \<comment> \<open>any other failure raised by a collaborator\<close>

text \<open>An attribute that an object may lack altogether, as \<^verbatim>\<open>hasattr\<close> tests it.\<close>

datatype 'a attr = Unset | Attr 'a

fun hasattr :: "'a attr \<Rightarrow> bool" where
  "hasattr Unset = False"
| "hasattr (Attr v) = True"

text \<open>A sqlalchemy \<^verbatim>\<open>Table\<close>: the source reads its \<^verbatim>\<open>name\<close> and \<^verbatim>\<open>schema\<close>.\<close>

record Table =
  name :: string
  schema :: "string option"

text \<open>
  A sqlalchemy \<^verbatim>\<open>ForeignKey\<close>: the source reads \<^verbatim>\<open>target_fullname\<close> and builds
  new ones from such a name.
\<close>

datatype ForeignKey = ForeignKey (target_fullname: string)

text \<open>
  A Python scalar type is represented by its name. A type class is what the source
  instantiates without arguments (\<^verbatim>\<open>self.type.__class__()\<close>, \<^verbatim>\<open>default_def[TYPE]()\<close>);
  \<open>new_python_type\<close> is the \<^verbatim>\<open>python_type\<close> of such an instance.
\<close>

type_synonym python_type = string

record TypeClass =
  class_name :: string
  new_python_type :: python_type

text \<open>
  A type instance (\<^verbatim>\<open>self.type\<close>): its class, its \<^verbatim>\<open>python_type\<close>, and the instance
  attributes that \<^verbatim>\<open>getattr\<close> finds by name, each holding an integer or \<^verbatim>\<open>None\<close>.
\<close>

record TypeEngine =
  sa_class :: TypeClass
  python_type :: python_type
  attrs :: "string \<rightharpoonup> int option"

definition getattr :: "TypeEngine \<Rightarrow> string \<Rightarrow> int option \<Rightarrow> int option" where
  "getattr t k d = (case attrs t k of None \<Rightarrow> d | Some v \<Rightarrow> v)"

text \<open>An engine: the source reads its \<^verbatim>\<open>dialect\<close>; \<open>url\<close> tells connections apart.\<close>

type_synonym dialect = string

record Engine =
  dialect :: dialect
  url :: string

text \<open>
  The column object. \<open>table\<close> is the attribute sqlalchemy maintains: every \<^verbatim>\<open>Column\<close>
  has it, \<^verbatim>\<open>None\<close> until the column is attached to a table. \<open>original_table\<close> is set
  by \<^verbatim>\<open>from_column\<close> only, so an object built by the constructor lacks it.
\<close>

record MathesarColumn =
  name :: string
  type :: TypeEngine
  foreign_keys :: "ForeignKey set"
  primary_key :: bool
  nullable :: bool
  server_default :: "string option"
  engine :: "Engine option"
  table :: "Table option"
  original_table :: "Table option attr"

subsection \<open>Imported names\<close>

text \<open>
  An entry of \<^verbatim>\<open>DEFAULT_COLUMNS\<close> (db/columns/defaults.py): a dictionary with the keys
  \<^verbatim>\<open>TYPE\<close>, \<^verbatim>\<open>PRIMARY_KEY\<close> and \<^verbatim>\<open>NULLABLE\<close>, of which the source reads the last two
  with a default. It holds the key \<^verbatim>\<open>TYPE\<close>, so it is never the empty (falsy)
  dictionary.
\<close>

record default_def =
  TYPE_KEY :: TypeClass
  PRIMARY_KEY :: "bool option"
  NULLABLE :: "bool option"

text \<open>
  What base.py imports and calls, taken as parameters: the registry
  \<^verbatim>\<open>DEFAULT_COLUMNS\<close>, the catalog lookups of db/columns/operations/select.py and
  db/tables/operations/select.py, the cast map of db/types/operations/cast.py, and
  sqlalchemy's \<^verbatim>\<open>inspect(engine).has_table\<close> and \<^verbatim>\<open>cls().compile(dialect)\<close>. Each
  call receives the arguments the source passes, may raise, and is not assumed to
  answer the same way for different engines.
\<close>

record env =
  DEFAULT_COLUMNS :: "string \<rightharpoonup> default_def"
  has_table :: "Engine option \<Rightarrow> string \<Rightarrow> string option \<Rightarrow> error + bool"
  get_oid_from_table :: "string \<Rightarrow> string option \<Rightarrow> Engine option \<Rightarrow> error + nat"
  get_column_index_from_name :: "nat \<Rightarrow> string \<Rightarrow> Engine option \<Rightarrow> error + int option"
  get_column_default :: "nat \<Rightarrow> int option \<Rightarrow> Engine option \<Rightarrow> error + string option"
  get_full_cast_map :: "Engine option \<Rightarrow> error + (string \<rightharpoonup> string list)"
  compile :: "TypeClass \<Rightarrow> dialect \<Rightarrow> error + string"

subsection \<open>The class\<close>

text \<open>\<^verbatim>\<open>__init__\<close>: the engine starts unbound; sqlalchemy's constructor stores the rest.\<close>

definition init ::
  "string \<Rightarrow> TypeEngine \<Rightarrow> ForeignKey set \<Rightarrow> bool \<Rightarrow> bool \<Rightarrow> string option \<Rightarrow> MathesarColumn" where
  "init nm sa_type fks pk nl sd =
     \<lparr>name = nm, type = sa_type, foreign_keys = fks, primary_key = pk, nullable = nl,
      server_default = sd, engine = None, table = None, original_table = Unset\<rparr>"

text \<open>
  \<^verbatim>\<open>from_column\<close>: new foreign keys from the target names, the constructor on the
  source's name, type, flags and default, then \<^verbatim>\<open>original_table = column.table\<close>.
\<close>

definition from_column :: "MathesarColumn \<Rightarrow> MathesarColumn" where
  "from_column column =
     (let fkeys = (\<lambda>fk. ForeignKey (target_fullname fk)) ` foreign_keys column;
          new_column = init (name column) (type column) fkeys
                         (primary_key column) (nullable column) (server_default column)
      in new_column\<lparr>original_table := Attr (table column)\<rparr>)"

text \<open>
  The property \<^verbatim>\<open>table_\<close>. \<^verbatim>\<open>hasattr(self, "table")\<close> holds of every column, so
  the first test is on the value alone.
\<close>

definition table_prop :: "MathesarColumn \<Rightarrow> Table option" where
  "table_prop self =
     (if table self \<noteq> None then table self
      else if hasattr (original_table self) \<and> original_table self \<noteq> Attr None
      then (case original_table self of Attr t \<Rightarrow> t | Unset \<Rightarrow> None)
      else None)"


definition add_engine :: "MathesarColumn \<Rightarrow> Engine option \<Rightarrow> MathesarColumn" where
  "add_engine self e = self\<lparr>engine := e\<rparr>"

text \<open>
  \<^verbatim>\<open>self.engine.dialect\<close> on an unbound engine is an attribute read on None.
\<close>

definition plain_type :: "env \<Rightarrow> MathesarColumn \<Rightarrow> error + string" where
  "plain_type ev self =
     (case engine self of
        None \<Rightarrow> Inl AttributeError
      | Some e \<Rightarrow> compile ev (sa_class (type self)) (dialect e))"


definition column_index :: "env \<Rightarrow> MathesarColumn \<Rightarrow> error + int option" where
  "column_index ev self =
     (case engine self of
        None \<Rightarrow> Inr None
      | Some e \<Rightarrow>
          (case table_prop self of
             None \<Rightarrow> Inr None
           | Some t \<Rightarrow>
               (case has_table ev (engine self) (Table.name t) (schema t) of
                  Inl err \<Rightarrow> Inl err
                | Inr False \<Rightarrow> Inr None
                | Inr True \<Rightarrow>
                    (case get_oid_from_table ev (Table.name t) (schema t) (engine self) of
                       Inl err \<Rightarrow> Inl err
                     | Inr table_oid \<Rightarrow>
                         get_column_index_from_name ev table_oid (name self) (engine self)))))"

text \<open>
  The arguments of \<^verbatim>\<open>get_column_default\<close> are evaluated after the oid lookup, the
  property \<^verbatim>\<open>column_index\<close> among them.
\<close>

definition default_value :: "env \<Rightarrow> MathesarColumn \<Rightarrow> error + string option" where
  "default_value ev self =
     (case table_prop self of
        None \<Rightarrow> Inr None
      | Some t \<Rightarrow>
          (case get_oid_from_table ev (Table.name t) (schema t) (engine self) of
             Inl err \<Rightarrow> Inl err
           | Inr table_oid \<Rightarrow>
               (case column_index ev self of
                  Inl err \<Rightarrow> Inl err
                | Inr idx \<Rightarrow> get_column_default ev table_oid idx (engine self))))"

text \<open>A dictionary is the list of its items in insertion order.\<close>

definition type_options :: "MathesarColumn \<Rightarrow> (string \<times> int) list option" where
  "type_options self =
     (let full_type_options =
            [(''precision'', getattr (type self) ''precision'' None),
             (''scale'', getattr (type self) ''scale'' None)];
          type_options' =
            concat (map (\<lambda>(k, v). case v of None \<Rightarrow> [] | Some x \<Rightarrow> [(k, x)]) full_type_options)
      in if type_options' \<noteq> [] then Some type_options' else None)"


subsection \<open>Objects and references\<close>




subsection \<open>Example objects\<close>

definition patrons :: Table where
  "patrons = \<lparr>Table.name = ''patrons'', schema = Some ''public''\<rparr>"

definition Integer :: TypeClass where
  "Integer = \<lparr>class_name = ''Integer'', new_python_type = ''int''\<rparr>"

definition Numeric :: TypeClass where
  "Numeric = \<lparr>class_name = ''Numeric'', new_python_type = ''Decimal''\<rparr>"

definition String :: TypeClass where
  "String = \<lparr>class_name = ''String'', new_python_type = ''str''\<rparr>"


definition numeric_10_2 :: TypeEngine where
  "numeric_10_2 =
     \<lparr>sa_class = Numeric, python_type = ''Decimal'',
      attrs = [''precision'' \<mapsto> Some 10, ''scale'' \<mapsto> Some 2]\<rparr>"

definition numeric_plain :: TypeEngine where
  "numeric_plain =
     \<lparr>sa_class = Numeric, python_type = ''Decimal'',
      attrs = [''precision'' \<mapsto> None, ''scale'' \<mapsto> None]\<rparr>"

definition string_type :: TypeEngine where
  "string_type = \<lparr>sa_class = String, python_type = ''str'', attrs = [''length'' \<mapsto> None]\<rparr>"

text \<open>
  A column \<^verbatim>\<open>MathesarColumn("email", String(), {ForeignKey("people.email")})\<close>, the
  same column once sqlalchemy has attached it to the table \<open>patrons\<close>, a copy of that,
  and a copy of the copy.
\<close>

definition email :: MathesarColumn where
  "email = init ''email'' string_type {ForeignKey ''people.email''} False True None"

definition email_attached :: MathesarColumn where
  "email_attached = email\<lparr>table := Some patrons\<rparr>"

definition email_copy :: MathesarColumn where
  "email_copy = from_column email_attached"

definition email_copy2 :: MathesarColumn where
  "email_copy2 = from_column email_copy"


definition ghosts :: Table where
  "ghosts = \<lparr>Table.name = ''ghosts'', schema = None\<rparr>"

definition email_ghost :: MathesarColumn where
  "email_ghost = email\<lparr>table := Some ghosts\<rparr>"

definition pg :: Engine where
  "pg = \<lparr>dialect = ''postgresql'', url = ''postgresql://localhost/library''\<rparr>"

text \<open>
  An example environment. Its registry knows the column \<^verbatim>\<open>id\<close>; its catalog holds
  the table \<open>public.patrons\<close> with the columns \<^verbatim>\<open>id\<close> and \<^verbatim>\<open>email\<close>; every lookup
  that is handed no engine raises, as sqlalchemy's \<^verbatim>\<open>inspect(None)\<close> does.
\<close>

definition example_env :: env where
  "example_env =
     \<lparr>DEFAULT_COLUMNS =
        [''id'' \<mapsto> \<lparr>TYPE_KEY = Integer, PRIMARY_KEY = Some True, NULLABLE = Some False\<rparr>],
      has_table = (\<lambda>e n s. case e of
         None \<Rightarrow> Inl NoInspectionAvailable
       | Some _ \<Rightarrow> Inr (n = ''patrons'' \<and> s = Some ''public'')),
      get_oid_from_table = (\<lambda>n s e. case e of
         None \<Rightarrow> Inl NoInspectionAvailable
       | Some _ \<Rightarrow> if n = ''patrons'' \<and> s = Some ''public'' then Inr 16384
                   else Inl (ExternalFailure ''no such table'')),
      get_column_index_from_name = (\<lambda>oid n e. case e of
         None \<Rightarrow> Inl NoInspectionAvailable
       | Some _ \<Rightarrow> Inr (if oid = 16384 \<and> n = ''id'' then Some 1
                        else if oid = 16384 \<and> n = ''email'' then Some 2 else None)),
      get_column_default = (\<lambda>oid i e. case e of
         None \<Rightarrow> Inl NoInspectionAvailable
       | Some _ \<Rightarrow> Inr (if oid = 16384 \<and> i = Some 2 then Some ''unknown'' else None)),
      get_full_cast_map = (\<lambda>e. case e of
         None \<Rightarrow> Inl NoInspectionAvailable
       | Some _ \<Rightarrow> Inr [''VARCHAR'' \<mapsto> [''text'', ''numeric'', ''boolean'', ''text''],
                        ''INTEGER'' \<mapsto> []]),
      compile = (\<lambda>k d. if d = ''postgresql'' then
           Inr (if class_name k = ''String'' then ''VARCHAR''
                else if class_name k = ''Numeric'' then ''NUMERIC''
                else if class_name k = ''Integer'' then ''INTEGER'' else ''NULL'')
         else Inl (ExternalFailure ''unknown dialect''))\<rparr>"

section \<open>Properties\<close>

subsection \<open>table_\<close>

text \<open>
  C6. The property \<^verbatim>\<open>table_\<close> (the effective table) is the attached table when the
  column has one; otherwise the table the column was copied from, when that is
  recorded; otherwise None.
\<close>

theorem table_priority:
  "(table self = Some t \<longrightarrow> table_prop self = Some t)
   \<and> (table self = None \<and> original_table self = Attr (Some t) \<longrightarrow> table_prop self = Some t)
   \<and> (table self = None \<and> original_table self = Attr None \<longrightarrow> table_prop self = None)
   \<and> (table self = None \<and> original_table self = Unset \<longrightarrow> table_prop self = None)"
  by (simp add: table_prop_def)

theorem table_priority_witness:
  "table email_attached = Some patrons \<and> table_prop email_attached = Some patrons
   \<and> table email_copy = None \<and> original_table email_copy = Attr (Some patrons)
   \<and> table_prop email_copy = Some patrons
   \<and> table email_copy2 = None \<and> original_table email_copy2 = Attr None
   \<and> table_prop email_copy2 = None
   \<and> table email = None \<and> original_table email = Unset \<and> table_prop email = None"
  using table_priority [of email_attached patrons] table_priority [of email_copy patrons]
    table_priority [of email_copy2 patrons] table_priority [of email patrons]
  by (simp add: email_copy2_def email_copy_def email_attached_def email_def
      from_column_def init_def)


subsection \<open>from_column\<close>

lemma from_column_fields:
  "name (from_column c) = name c"
  "type (from_column c) = type c"
  "primary_key (from_column c) = primary_key c"
  "nullable (from_column c) = nullable c"
  "server_default (from_column c) = server_default c"
  "engine (from_column c) = None"
  "table (from_column c) = None"
  "original_table (from_column c) = Attr (table c)"
  "foreign_keys (from_column c) = (\<lambda>fk. ForeignKey (target_fullname fk)) ` foreign_keys c"
  by (simp_all add: from_column_def init_def)

text \<open>
  C2, as the code has it. The copy records the table the source is attached to, which
  is the attribute \<^verbatim>\<open>table\<close> of the source and not its effective table: the copy's
  effective table is the source's attached table when the source is attached, and None
  otherwise, also when the source itself records an original table. The copy is not
  attached and its engine is unbound.
\<close>

theorem from_column_table_context:
  "table (from_column c) = None
   \<and> original_table (from_column c) = Attr (table c)
   \<and> table_prop (from_column c) = table c
   \<and> engine (from_column c) = None"
  by (cases "table c") (simp_all add: from_column_fields table_prop_def)

text \<open>
  C2 as stated fails: \<open>email_copy\<close> is not attached and has the effective table
  \<open>patrons\<close> through its original table, yet its copy has no effective table.
\<close>

theorem from_column_historical_source_counterexample:
  "table_prop email_copy = Some patrons
   \<and> original_table (from_column email_copy) \<noteq> Attr (table_prop email_copy)
   \<and> table_prop (from_column email_copy) = None"
  by (simp add: email_copy_def email_attached_def email_def from_column_def init_def
      table_prop_def)





subsection \<open>plain_type\<close>

text \<open>
  C10. Reading \<^verbatim>\<open>plain_type\<close> of a column whose engine is unbound raises (the
  attribute \<^verbatim>\<open>dialect\<close> is read on None); it does not return None.
\<close>

theorem plain_type_unbound_engine:
  "engine self = None \<Longrightarrow> plain_type ev self = Inl AttributeError"
  by (simp add: plain_type_def)

theorem plain_type_unbound_engine_witness:
  "engine email_copy = None \<and> plain_type example_env email_copy = Inl AttributeError"
  using plain_type_unbound_engine [of email_copy example_env]
  by (simp add: email_copy_def from_column_fields)


subsection \<open>is_default\<close>



subsection \<open>valid_target_types\<close>





subsection \<open>column_index\<close>

text \<open>
  C5. \<^verbatim>\<open>column_index\<close> is None when the engine is unbound, when the column has no
  effective table, and when the existence check answers that no table of that name and
  schema exists. When the engine is bound, the effective table is present and the check
  answers that the table exists, it is what the name-to-index lookup reports for the
  table identifier that the oid lookup resolves and the column's name. A failure of the
  existence check or of the oid lookup is raised to the caller.
\<close>

theorem column_index_spec:
  "(engine self = None \<longrightarrow> column_index ev self = Inr None)
   \<and> (table_prop self = None \<longrightarrow> column_index ev self = Inr None)
   \<and> (\<forall>t. engine self \<noteq> None \<and> table_prop self = Some t
          \<and> has_table ev (engine self) (Table.name t) (schema t) = Inr False
        \<longrightarrow> column_index ev self = Inr None)
   \<and> (\<forall>t table_oid. engine self \<noteq> None \<and> table_prop self = Some t
          \<and> has_table ev (engine self) (Table.name t) (schema t) = Inr True
          \<and> get_oid_from_table ev (Table.name t) (schema t) (engine self) = Inr table_oid
        \<longrightarrow> column_index ev self
            = get_column_index_from_name ev table_oid (name self) (engine self))
   \<and> (\<forall>t err. engine self \<noteq> None \<and> table_prop self = Some t
          \<and> has_table ev (engine self) (Table.name t) (schema t) = Inl err
        \<longrightarrow> column_index ev self = Inl err)
   \<and> (\<forall>t err. engine self \<noteq> None \<and> table_prop self = Some t
          \<and> has_table ev (engine self) (Table.name t) (schema t) = Inr True
          \<and> get_oid_from_table ev (Table.name t) (schema t) (engine self) = Inl err
        \<longrightarrow> column_index ev self = Inl err)"
  by (auto simp add: column_index_def split: option.splits)

theorem column_index_spec_witness:
  "engine email_attached = None
   \<and> column_index example_env email_attached = Inr None
   \<and> table_prop (add_engine email (Some pg)) = None
   \<and> column_index example_env (add_engine email (Some pg)) = Inr None
   \<and> engine (add_engine email_ghost (Some pg)) \<noteq> None
   \<and> table_prop (add_engine email_ghost (Some pg)) = Some ghosts
   \<and> has_table example_env (engine (add_engine email_ghost (Some pg)))
        (Table.name ghosts) (schema ghosts) = Inr False
   \<and> column_index example_env (add_engine email_ghost (Some pg)) = Inr None
   \<and> engine (add_engine email_copy (Some pg)) \<noteq> None
   \<and> table_prop (add_engine email_copy (Some pg)) = Some patrons
   \<and> has_table example_env (engine (add_engine email_copy (Some pg)))
        (Table.name patrons) (schema patrons) = Inr True
   \<and> get_oid_from_table example_env (Table.name patrons) (schema patrons)
        (engine (add_engine email_copy (Some pg))) = Inr 16384
   \<and> get_column_index_from_name example_env 16384 (name (add_engine email_copy (Some pg)))
        (engine (add_engine email_copy (Some pg))) = Inr (Some 2)
   \<and> column_index example_env (add_engine email_copy (Some pg)) = Inr (Some 2)"
  using column_index_spec [where ev = example_env and self = email_attached]
    column_index_spec [where ev = example_env and self = "add_engine email (Some pg)"]
    column_index_spec [where ev = example_env and self = "add_engine email_ghost (Some pg)"]
    column_index_spec [where ev = example_env and self = "add_engine email_copy (Some pg)"]
  by (simp add: column_index_def table_prop_def add_engine_def email_copy_def
      from_column_fields email_ghost_def email_attached_def email_def init_def
      example_env_def patrons_def ghosts_def)

subsection \<open>type_options\<close>

lemma type_options_cases:
  "type_options self =
     (case (getattr (type self) ''precision'' None, getattr (type self) ''scale'' None) of
        (None, None) \<Rightarrow> None
      | (Some p, None) \<Rightarrow> Some [(''precision'', p)]
      | (None, Some s) \<Rightarrow> Some [(''scale'', s)]
      | (Some p, Some s) \<Rightarrow> Some [(''precision'', p), (''scale'', s)])"
  by (simp add: type_options_def split: option.splits)

lemma getattr_Some_iff:
  "getattr t k None = Some v \<longleftrightarrow> attrs t k = Some (Some v)"
  by (simp add: getattr_def split: option.splits)

lemma getattr_None_iff:
  "getattr t k None = None \<longleftrightarrow> attrs t k = None \<or> attrs t k = Some None"
  by (simp add: getattr_def split: option.splits)

text \<open>
  C9. \<^verbatim>\<open>type_options\<close> is None exactly when the type has neither a precision nor a
  scale that is not None, so in particular when no attribute of the type holds a
  value; it is never an empty container. For a type with precision \<open>p\<close> and scale \<open>s\<close>
  it is the dictionary \<^verbatim>\<open>{"precision": p, "scale": s}\<close>. Whenever it is a dictionary,
  its entries are exactly those of \<^verbatim>\<open>precision\<close> and \<^verbatim>\<open>scale\<close> that hold a value.
\<close>

theorem type_options_spec:
  "(type_options self = None \<longleftrightarrow>
      getattr (type self) ''precision'' None = None \<and> getattr (type self) ''scale'' None = None)
   \<and> type_options self \<noteq> Some []
   \<and> ((\<forall>k. attrs (type self) k = None \<or> attrs (type self) k = Some None)
        \<longrightarrow> type_options self = None)
   \<and> (\<forall>p s. attrs (type self) ''precision'' = Some (Some p)
          \<and> attrs (type self) ''scale'' = Some (Some s)
        \<longrightarrow> type_options self = Some [(''precision'', p), (''scale'', s)])
   \<and> (\<forall>m. type_options self = Some m \<longrightarrow>
          (\<forall>k v. map_of m k = Some v \<longleftrightarrow>
             (k = ''precision'' \<or> k = ''scale'') \<and> attrs (type self) k = Some (Some v)))"
proof (intro conjI allI impI)
  show "type_options self = None \<longleftrightarrow>
      getattr (type self) ''precision'' None = None \<and> getattr (type self) ''scale'' None = None"
    by (simp add: type_options_cases split: option.splits)
next
  show "type_options self \<noteq> Some []"
    by (simp add: type_options_cases split: option.splits)
next
  assume "\<forall>k. attrs (type self) k = None \<or> attrs (type self) k = Some None"
  then have "getattr (type self) ''precision'' None = None"
    and "getattr (type self) ''scale'' None = None"
    by (simp_all add: getattr_None_iff)
  then show "type_options self = None"
    by (simp add: type_options_cases)
next
  fix p s
  assume "attrs (type self) ''precision'' = Some (Some p)
          \<and> attrs (type self) ''scale'' = Some (Some s)"
  then have "getattr (type self) ''precision'' None = Some p"
    and "getattr (type self) ''scale'' None = Some s"
    by (simp_all add: getattr_Some_iff)
  then show "type_options self = Some [(''precision'', p), (''scale'', s)]"
    by (simp add: type_options_cases)
next
  fix m k v
  assume m: "type_options self = Some m"
  show "map_of m k = Some v \<longleftrightarrow>
          (k = ''precision'' \<or> k = ''scale'') \<and> attrs (type self) k = Some (Some v)"
  proof (cases "getattr (type self) ''precision'' None")
    case None
    note p = this
    show ?thesis
    proof (cases "getattr (type self) ''scale'' None")
      case None
      with p m show ?thesis by (simp add: type_options_cases)
    next
      case (Some s)
      with p m have "m = [(''scale'', s)]" by (simp add: type_options_cases)
      with p Some show ?thesis
        by (auto simp add: getattr_Some_iff getattr_None_iff)
    qed
  next
    case (Some pr)
    note p = this
    show ?thesis
    proof (cases "getattr (type self) ''scale'' None")
      case None
      with p m have "m = [(''precision'', pr)]" by (simp add: type_options_cases)
      with p None show ?thesis
        by (auto simp add: getattr_Some_iff getattr_None_iff)
    next
      case (Some s)
      with p m have "m = [(''precision'', pr), (''scale'', s)]"
        by (simp add: type_options_cases)
      with p Some show ?thesis
        by (auto simp add: getattr_Some_iff)
    qed
  qed
qed

theorem type_options_spec_witness:
  "(\<forall>k. attrs (type email) k = None \<or> attrs (type email) k = Some None)
   \<and> type_options email = None
   \<and> type_options (email\<lparr>type := numeric_plain\<rparr>) = None
   \<and> attrs (type (email\<lparr>type := numeric_10_2\<rparr>)) ''precision'' = Some (Some 10)
   \<and> attrs (type (email\<lparr>type := numeric_10_2\<rparr>)) ''scale'' = Some (Some 2)
   \<and> type_options (email\<lparr>type := numeric_10_2\<rparr>) = Some [(''precision'', 10), (''scale'', 2)]
   \<and> map_of [(''precision'', 10), (''scale'', 2 :: int)] ''scale'' = Some 2"
  using type_options_spec [where self = email]
    type_options_spec [where self = "email\<lparr>type := numeric_plain\<rparr>"]
    type_options_spec [where self = "email\<lparr>type := numeric_10_2\<rparr>"]
  by (simp add: email_def init_def string_type_def numeric_plain_def numeric_10_2_def
      getattr_def)

subsection \<open>default_value\<close>

lemma default_value_no_engine:
  assumes "engine self = None" and "table_prop self = Some t"
  shows "default_value ev self =
           (case get_oid_from_table ev (Table.name t) (schema t) None of
              Inl err \<Rightarrow> Inl err
            | Inr table_oid \<Rightarrow> get_column_default ev table_oid None None)"
  using assms by (simp add: default_value_def column_index_def split: sum.splits)

text \<open>
  C1. \<^verbatim>\<open>default_value\<close> tests the effective table only. With the engine unbound and
  an effective table present it runs the oid lookup and the default lookup with no
  engine, and its outcome is theirs. The copy \<open>email_copy\<close> of an attached column has
  the effective table \<open>patrons\<close> and no engine; where a lookup without an engine
  raises, reading its \<^verbatim>\<open>default_value\<close> raises too, and does not give None.
\<close>

theorem default_value_unbound_engine:
  "engine email_copy = None
   \<and> table_prop email_copy = Some patrons
   \<and> column_index example_env email_copy = Inr None
   \<and> default_value example_env email_copy = Inl NoInspectionAvailable"
proof -
  have e: "engine email_copy = None"
    by (simp add: email_copy_def from_column_fields)
  have t: "table_prop email_copy = Some patrons"
    by (simp add: email_copy_def from_column_fields table_prop_def email_attached_def)
  have c: "column_index example_env email_copy = Inr None"
    using e by (simp add: column_index_def)
  have "get_oid_from_table example_env (Table.name patrons) (schema patrons) None
          = Inl NoInspectionAvailable"
    by (simp add: example_env_def)
  with default_value_no_engine [OF e t, of example_env] e t c show ?thesis
    by simp
qed

end
